theory Spec2Isabelle
  imports Main
begin

section \<open>Authentication store (frontend/src/lib/store/auth.ts)\<close>

text \<open>
  The Zustand store keeps six fields. \<open>set\<close> merges a partial update into the state;
  each call of \<open>set\<close> in the source is written below as a record update of exactly the
  fields it names. The user object is opaque to the store, hence the type parameter.
\<close>

record 'u auth_state =
  user :: "'u option"
  accessToken :: "string option"
  refreshToken :: "string option"
  isAuthenticated :: bool
  isLoading :: bool
  error :: "string option"

text \<open>
  The API client keeps its own copy of the tokens in the browser's \<open>localStorage\<close>
  under the keys \<open>access_token\<close> and \<open>refresh_token\<close>. On the server side of a
  Next.js render there is no \<open>window\<close>, and \<open>clearToken\<close> returns at once.
\<close>

record local_storage =
  has_window :: bool
  access_token :: "string option"
  refresh_token :: "string option"

text \<open>A promise either resolves with a value or rejects with the thrown error.\<close>

datatype 'a promise = Resolved 'a | Rejected string

definition clearToken :: "local_storage \<Rightarrow> local_storage" where
  "clearToken ls =
     (if \<not> has_window ls then ls
      else ls\<lparr>access_token := None, refresh_token := None\<rparr>)"

text \<open>
  \<open>ApiClient.logout\<close>: \<open>try { await this.post(...) } finally { this.clearToken() }\<close>.
  The outcome of the POST is the parameter \<open>post\<close>; a rejected POST is rethrown after
  the \<open>finally\<close> block has run.
\<close>

definition api_logout :: "unit promise \<Rightarrow> local_storage \<Rightarrow> unit promise \<times> local_storage" where
  "api_logout post ls = (post, clearToken ls)"

text \<open>
  The store's \<open>logout\<close>. The result carries the final state, the local storage and
  the lines written by \<open>console.error\<close>. The \<open>catch\<close> block swallows the error, so
  the promise returned by \<open>logout\<close> never rejects.
\<close>

definition logout ::
  "unit promise \<Rightarrow> 'u auth_state \<Rightarrow> local_storage
     \<Rightarrow> ('u auth_state \<times> local_storage \<times> string list) promise" where
  "logout post st ls =
     (let st1 = st\<lparr>isLoading := True\<rparr>;
          (r, ls1) = api_logout post ls;
          console = (case r of Resolved _ \<Rightarrow> [] | Rejected e \<Rightarrow> [''Logout error:'' @ e]);
          st2 = st1\<lparr>user := None, accessToken := None, refreshToken := None,
                    isAuthenticated := False, isLoading := False, error := None\<rparr>
      in Resolved (st2, ls1, console))"

section \<open>JSON values and Python exceptions\<close>

text \<open>
  The backend handlers receive and send JSON. A Python \<open>dict\<close> is an association
  list, looked up with \<open>map_of\<close> (the first binding of a key counts).
\<close>

datatype json =
    JNull
  | JBool bool
  | JNum int
  | JStr string
  | JList "json list"
  | JDict "(string \<times> json) list"

datatype py_error =
    KeyError string
  | TypeError
  | ProviderError string

text \<open>
  \<open>obj[key]\<close> with a string key: a dict without the key raises \<open>KeyError\<close>, every other
  JSON value raises \<open>TypeError\<close> (lists and strings want integer indices, the rest is not
  subscriptable).
\<close>

fun subscript :: "json \<Rightarrow> string \<Rightarrow> py_error + json" where
  "subscript (JDict kvs) k =
     (case map_of kvs k of None \<Rightarrow> Inl (KeyError k) | Some v \<Rightarrow> Inr v)"
| "subscript _ k = Inl TypeError"

text \<open>\<open>d.get(key)\<close> on the data of an event: \<open>None\<close> when the key is absent.\<close>

fun get_field :: "json \<Rightarrow> string \<Rightarrow> json option" where
  "get_field (JDict kvs) k = map_of kvs k"
| "get_field _ k = None"

section \<open>The WebSocket endpoint (Integration Points, section 1)\<close>

text \<open>
  Every server event is \<open>{'type': t, 'data': d}\<close>.
\<close>

definition server_event :: "string \<Rightarrow> json \<Rightarrow> json" where
  "server_event t d = JDict [(''type'', JStr t), (''data'', d)]"

definition event_type :: "json \<Rightarrow> json option" where
  "event_type e = get_field e ''type''"

definition event_data :: "json \<Rightarrow> json" where
  "event_data e = (case get_field e ''data'' of None \<Rightarrow> JNull | Some d \<Rightarrow> d)"

text \<open>
  \<open>stream_ai_response\<close> lives in \<open>app.services.ai_service\<close>, which the sources only
  import. An invocation is described by what the \<open>async for\<close> loop observes: the chunks
  yielded, and then either exhaustion of the generator or an exception raised by it. The
  usage summary that the source elides as \<open>{...}\<close> in the \<open>stream_end\<close> event is taken
  from the exhausted stream.
\<close>

datatype stream_ending = Exhausted json | Raised string

record ai_stream =
  chunks :: "string list"
  ending :: stream_ending

text \<open>
  The parts the source elides or imports are parameters of the handler:
  the generator, the data of the \<open>message_created\<close> event (\<open>{...}\<close>) and the message id
  of the \<open>stream_start\<close> event (\<open>'...'\<close>).
\<close>

record backend =
  stream_ai_response :: "json \<Rightarrow> ai_stream"
  message_created_data :: "json \<Rightarrow> json"
  new_message_id :: "json \<Rightarrow> string"

text \<open>How the handler function ends.\<close>

datatype outcome =
    Stopped         \<comment> \<open>\<open>break\<close> on \<open>stop_generation\<close>: the function returns\<close>
  | Disconnected    \<comment> \<open>\<open>WebSocketDisconnect\<close> caught by the \<open>except\<close> clause\<close>
  | Crashed py_error  \<comment> \<open>any other exception leaves the function uncaught\<close>

definition stream_chunk_event :: "string \<Rightarrow> json" where
  "stream_chunk_event c = server_event ''stream_chunk'' (JDict [(''chunk'', JStr c)])"

definition prepend :: "json list \<Rightarrow> json list \<times> outcome \<Rightarrow> json list \<times> outcome" where
  "prepend evs r = (evs @ fst r, snd r)"

text \<open>
  \<open>websocket_endpoint\<close>, after \<open>accept()\<close>. The argument list is what
  \<open>receive_json()\<close> returns call after call; once it is used up the client has gone and
  \<open>receive_json()\<close> raises \<open>WebSocketDisconnect\<close>. The result is the list of values passed
  to \<open>send_json\<close>, in order, and the way the function ended; a \<open>send_json\<close> is taken
  to succeed as long as the client has not gone. While the chunks of one message are sent
  the loop does not call \<open>receive_json()\<close>: a \<open>stop_generation\<close> is read only at the next
  iteration.
\<close>

fun websocket_endpoint :: "backend \<Rightarrow> json list \<Rightarrow> json list \<times> outcome" where
  "websocket_endpoint b [] = ([], Disconnected)"
| "websocket_endpoint b (data # rest) =
     (case subscript data ''type'' of
        Inl e \<Rightarrow> ([], Crashed e)
      | Inr t \<Rightarrow>
          if t = JStr ''send_message'' then
            prepend
              [server_event ''message_created'' (message_created_data b data),
               server_event ''stream_start''
                 (JDict [(''message_id'', JStr (new_message_id b data))])]
              (case subscript data ''message'' of
                 Inl e \<Rightarrow> ([], Crashed e)
               | Inr m \<Rightarrow>
                   prepend (map stream_chunk_event (chunks (stream_ai_response b m)))
                     (case ending (stream_ai_response b m) of
                        Raised e \<Rightarrow> ([], Crashed (ProviderError e))
                      | Exhausted usage \<Rightarrow>
                          prepend [server_event ''stream_end'' (JDict [(''usage'', usage)])]
                            (websocket_endpoint b rest)))
          else if t = JStr ''stop_generation'' then ([], Stopped)
          else websocket_endpoint b rest)"

text \<open>
  The client events. The handler reads the message of a \<open>send_message\<close> event from
  \<open>data['message']\<close>; \<open>ChatWebSocket.sendMessage\<close> and \<open>ChatWebSocket.stopGeneration\<close> of
  the frontend put their payload under the key \<open>data\<close>.
\<close>

definition send_message_event :: "json \<Rightarrow> json" where
  "send_message_event m = JDict [(''type'', JStr ''send_message''), (''message'', m)]"

definition client_send_message :: "json \<Rightarrow> json" where
  "client_send_message message = JDict [(''type'', JStr ''send_message''), (''data'', message)]"

definition stop_generation_event :: "string \<Rightarrow> json" where
  "stop_generation_event mid =
     JDict [(''type'', JStr ''stop_generation''),
            (''data'', JDict [(''message_id'', JStr mid)])]"

text \<open>Reading the wire: the events of a given type, and the terminal ones.\<close>

definition has_type :: "string \<Rightarrow> json \<Rightarrow> bool" where
  "has_type t e = (event_type e = Some (JStr t))"

definition terminal_events :: "json list \<Rightarrow> json list" where
  "terminal_events evs =
     filter (\<lambda>e. has_type ''stream_end'' e \<or> has_type ''stream_error'' e) evs"

definition chunk_indices :: "json list \<Rightarrow> json option list" where
  "chunk_indices evs =
     map (\<lambda>e. get_field (event_data e) ''chunk_index'') (filter (has_type ''stream_chunk'') evs)"

text \<open>
  The events of one generation that runs to its end, and the requests that lead to one:
  a \<open>send_message\<close> with a \<open>message\<close> whose stream is exhausted without an exception.
\<close>

definition generation_events :: "backend \<Rightarrow> json \<Rightarrow> json list" where
  "generation_events b data =
     (case subscript data ''message'' of
        Inl e \<Rightarrow> []
      | Inr m \<Rightarrow>
          [server_event ''message_created'' (message_created_data b data),
           server_event ''stream_start''
             (JDict [(''message_id'', JStr (new_message_id b data))])]
          @ map stream_chunk_event (chunks (stream_ai_response b m))
          @ (case ending (stream_ai_response b m) of
               Raised e \<Rightarrow> []
             | Exhausted usage \<Rightarrow> [server_event ''stream_end'' (JDict [(''usage'', usage)])]))"

definition completes :: "backend \<Rightarrow> json \<Rightarrow> bool" where
  "completes b data =
     (subscript data ''type'' = Inr (JStr ''send_message'')
      \<and> (case subscript data ''message'' of
            Inl e \<Rightarrow> False
          | Inr m \<Rightarrow>
              (case ending (stream_ai_response b m) of
                 Raised e \<Rightarrow> False
               | Exhausted usage \<Rightarrow> True)))"

section \<open>The assistant message behind a stream\<close>

text \<open>
  The fields of the \<open>Message\<close> interface (Data Models, section 3) that streaming touches.
  A status entry is a pair of a level and a text.
\<close>

record message =
  message_id :: "json option"
  role :: string
  content :: string
  generating :: bool
  usage :: "json option"
  status :: "(string \<times> string) list"
  error_text :: "string option"

text \<open>The text of a JSON string, empty for anything else.\<close>

definition json_text :: "json option \<Rightarrow> string" where
  "json_text j = (case j of Some (JStr s) \<Rightarrow> s | _ \<Rightarrow> [])"

text \<open>
  Modelled from the spec: the step that persists the assistant message is not in the
  sources (the handler only sends events; the message store and \<open>ai_service\<close> are
  imported). Following the spec's Orchestrator (4.4) and the response flow of the user
  workflows: \<open>stream_start\<close> opens an assistant message with \<open>generating\<close> set,
  each \<open>stream_chunk\<close> appends its text, \<open>stream_end\<close> stores the usage and clears
  \<open>generating\<close>, \<open>stream_error\<close> stores an error-level status with the error text and
  clears \<open>generating\<close>; a message that is no longer generating does not change.
\<close>

definition apply_event :: "message option \<Rightarrow> json \<Rightarrow> message option" where
  "apply_event cur e =
     (if has_type ''stream_start'' e then
        Some \<lparr>message_id = get_field (event_data e) ''message_id'', role = ''assistant'',
              content = [], generating = True, usage = None, status = [],
              error_text = None\<rparr>
      else case cur of
        None \<Rightarrow> None
      | Some m \<Rightarrow>
          if \<not> generating m then Some m
          else if has_type ''stream_chunk'' e then
            Some (m\<lparr>content := content m @ json_text (get_field (event_data e) ''chunk'')\<rparr>)
          else if has_type ''stream_end'' e then
            Some (m\<lparr>usage := get_field (event_data e) ''usage'', generating := False\<rparr>)
          else if has_type ''stream_error'' e then
            Some (m\<lparr>status := status m @ [(''error'', json_text (get_field (event_data e) ''error''))],
                   error_text := Some (json_text (get_field (event_data e) ''error'')),
                   generating := False\<rparr>)
          else Some m)"

text \<open>
  Modelled from the spec: the persisted assistant message is what these steps make of the
  events sent on the connection, in order.
\<close>

definition persisted_message :: "json list \<Rightarrow> message option" where
  "persisted_message evs = foldl apply_event None evs"

section \<open>Concrete runs\<close>

text \<open>
  A backend whose generator plays one scripted stream; the \<open>message_created\<close> event
  echoes the message and every assistant message gets the id \<open>a1\<close>.
\<close>

definition scripted :: "ai_stream \<Rightarrow> backend" where
  "scripted s =
     \<lparr>stream_ai_response = (\<lambda>m. s),
      message_created_data = (\<lambda>d. case get_field d ''message'' of None \<Rightarrow> JNull | Some m \<Rightarrow> m),
      new_message_id = (\<lambda>d. ''a1'')\<rparr>"

definition user_text :: "string \<Rightarrow> json" where
  "user_text t =
     JDict [(''role'', JStr ''user''),
            (''content_parts'', JList [JDict [(''type'', JStr ''text''), (''text'', JStr t)]])]"

text \<open>A message that names no known role and has no content part.\<close>

definition rootless :: json where
  "rootless = JDict [(''role'', JStr ''root''), (''content_parts'', JList [])]"

definition usage_5_2_7 :: json where
  "usage_5_2_7 =
     JDict [(''prompt_tokens'', JNum 5), (''completion_tokens'', JNum 2),
            (''total_tokens'', JNum 7)]"

definition hi_there :: ai_stream where
  "hi_there = \<lparr>chunks = [''Hi'', '' there''], ending = Exhausted usage_5_2_7\<rparr>"

definition story :: ai_stream where
  "story = \<lparr>chunks = [''Once upon a time'', '' there was''], ending = Exhausted JNull\<rparr>"

definition rate_limited :: ai_stream where
  "rate_limited = \<lparr>chunks = [], ending = Raised ''Rate limit exceeded''\<rparr>"

definition three_then_fail :: ai_stream where
  "three_then_fail = \<lparr>chunks = [''A'', ''B'', ''C''], ending = Raised ''transient-network''\<rparr>"

section \<open>The connection manager (Integration Points, scaling WebSocket connections)\<close>

text \<open>
  \<open>ConnectionManager.active_connections\<close> is a \<open>Dict[str, WebSocket]\<close>: one websocket per
  session id. Every \<open>connect\<close> also subscribes to the Redis channel of the session and
  starts a \<open>listen_redis\<close> task for it; the tasks are listed by the session id they were
  started with. A websocket is named by a number, and \<open>delivered\<close> holds the texts passed to
  its \<open>send_text\<close>, in order. Distinct session ids give distinct channel names, so a
  channel is identified with its session id.
\<close>

record manager =
  active_connections :: "string \<rightharpoonup> nat"
  listeners :: "string list"
  delivered :: "nat \<Rightarrow> string list"

definition new_manager :: manager where
  "new_manager = \<lparr>active_connections = Map.empty, listeners = [], delivered = (\<lambda>ws. [])\<rparr>"

definition connect :: "string \<Rightarrow> nat \<Rightarrow> manager \<Rightarrow> manager" where
  "connect session_id websocket m =
     m\<lparr>active_connections := (active_connections m)(session_id \<mapsto> websocket),
       listeners := listeners m @ [session_id]\<rparr>"

text \<open>
  One turn of the loop in \<open>listen_redis\<close> for a published message: the task looks the
  session's websocket up at that moment and sends the text to it.
\<close>

definition listen_redis :: "string \<Rightarrow> string \<Rightarrow> manager \<Rightarrow> manager" where
  "listen_redis session_id text m =
     (case active_connections m session_id of
        None \<Rightarrow> m
      | Some ws \<Rightarrow> m\<lparr>delivered := (delivered m)(ws := delivered m ws @ [text])\<rparr>)"

text \<open>
  \<open>broadcast\<close> publishes on the session's channel; Redis hands the message to every
  subscription of that channel, that is to every listener task started for the session.
  A subscription receives the messages of its channel in the order of their publication;
  the turns of the listener tasks for one message are taken before the next operation.
\<close>

definition broadcast :: "string \<Rightarrow> string \<Rightarrow> manager \<Rightarrow> manager" where
  "broadcast session_id text m =
     fold (\<lambda>l. listen_redis l text) (filter (\<lambda>l. l = session_id) (listeners m)) m"

datatype manager_op = Connect string nat | Broadcast string string

fun apply_op :: "manager_op \<Rightarrow> manager \<Rightarrow> manager" where
  "apply_op (Connect s ws) m = connect s ws m"
| "apply_op (Broadcast s text) m = broadcast s text m"

definition run_manager :: "manager_op list \<Rightarrow> manager \<Rightarrow> manager" where
  "run_manager ops m = fold apply_op ops m"

text \<open>
  Traffic that leaves a given connection alone: no other \<open>connect\<close> for its session and
  none that reuses its websocket. The texts broadcast to a session, in order.
\<close>

fun elsewhere :: "string \<Rightarrow> nat \<Rightarrow> manager_op \<Rightarrow> bool" where
  "elsewhere sid ws (Connect s w) = (s \<noteq> sid \<and> w \<noteq> ws)"
| "elsewhere sid ws (Broadcast s text) = True"

fun broadcasts_to :: "string \<Rightarrow> manager_op list \<Rightarrow> string list" where
  "broadcasts_to sid [] = []"
| "broadcasts_to sid (Connect s w # ops) = broadcasts_to sid ops"
| "broadcasts_to sid (Broadcast s text # ops) =
     (if s = sid then text # broadcasts_to sid ops else broadcasts_to sid ops)"

text \<open>
  Two situations of the manager with respect to a session and a websocket, used as
  invariants: before the connection is made, nothing mentions either of them; once it is
  made, it is the session's only listener and the only entry for its websocket.
\<close>

definition untouched :: "string \<Rightarrow> nat \<Rightarrow> manager \<Rightarrow> bool" where
  "untouched sid ws m \<longleftrightarrow>
     sid \<notin> set (listeners m) \<and> active_connections m sid = None
     \<and> (\<forall>s. active_connections m s \<noteq> Some ws) \<and> delivered m ws = []"

definition sole :: "string \<Rightarrow> nat \<Rightarrow> manager \<Rightarrow> bool" where
  "sole sid ws m \<longleftrightarrow>
     active_connections m sid = Some ws \<and> filter (\<lambda>l. l = sid) (listeners m) = [sid]
     \<and> (\<forall>s. active_connections m s = Some ws \<longrightarrow> s = sid)"

section \<open>Retrying the provider call (Integration Points, section 9)\<close>

text \<open>
  \<open>wait_exponential(multiplier, min, max)\<close> of the tenacity library, for attempt numbers
  counted from 1: \<open>max(max(0, min), min(multiplier * 2 ** (attempt - 1), max))\<close>.
\<close>

definition wait_exponential :: "nat \<Rightarrow> nat \<Rightarrow> nat \<Rightarrow> nat \<Rightarrow> nat" where
  "wait_exponential multiplier mn mx attempt =
     max (max 0 mn) (min (multiplier * 2 ^ (attempt - 1)) mx)"

text \<open>
  What a call of the provider can raise: an instance of \<open>Exception\<close>, or a
  \<open>BaseException\<close> outside \<open>Exception\<close> (\<open>asyncio.CancelledError\<close>, \<open>KeyboardInterrupt\<close>,
  \<open>SystemExit\<close>). Each carries its message.
\<close>

datatype raised = Exc string | BaseExc string

text \<open>
  How the decorated function fails: with tenacity's \<open>RetryError\<close> around the last
  exception, or with an exception of the provider passed on as it is.
\<close>

datatype retry_failure = RetryError string | Propagated string

record 'a retry_run =
  final :: "retry_failure + 'a"
  provider_calls :: nat
  waits :: "nat list"
  printed :: "string list"

text \<open>
  The \<open>@retry\<close> decorator around the body of \<open>call_ai_provider_with_retry\<close>. The
  provider is given by the outcome of its \<open>generate\<close> at each attempt. The body's
  \<open>except Exception\<close> prints and re-raises an \<open>Exception\<close>; anything else passes through
  it unprinted. The decorator is given no \<open>retry=\<close> predicate, and its default is
  \<open>retry_if_exception_type(Exception)\<close>: after an \<open>Exception\<close> it stops once the attempt
  number has reached \<open>stop\<close> (then \<open>RetryError\<close> wraps the last exception) and sleeps
  \<open>wait attempt\<close> seconds otherwise; any other exception is raised again at once.
\<close>

function retrying ::
  "nat \<Rightarrow> (nat \<Rightarrow> nat) \<Rightarrow> (nat \<Rightarrow> raised + 'a) \<Rightarrow> nat \<Rightarrow> nat list \<Rightarrow> string list
     \<Rightarrow> 'a retry_run" where
  "retrying stop wait provider attempt slept out =
     (case provider attempt of
        Inr v \<Rightarrow> \<lparr>final = Inr v, provider_calls = attempt, waits = slept, printed = out\<rparr>
      | Inl (BaseExc e) \<Rightarrow>
          \<lparr>final = Inl (Propagated e), provider_calls = attempt, waits = slept, printed = out\<rparr>
      | Inl (Exc e) \<Rightarrow>
          if attempt \<ge> stop then
            \<lparr>final = Inl (RetryError e), provider_calls = attempt, waits = slept,
             printed = out @ [''AI provider error: '' @ e]\<rparr>
          else
            retrying stop wait provider (attempt + 1) (slept @ [wait attempt])
              (out @ [''AI provider error: '' @ e]))"
  by pat_completeness auto
termination
  by (relation "measure (\<lambda>(stop, wait, provider, attempt, slept, out). stop - attempt)") auto

declare retrying.simps [simp del]

definition call_ai_provider_with_retry :: "(nat \<Rightarrow> raised + 'a) \<Rightarrow> 'a retry_run" where
  "call_ai_provider_with_retry provider =
     retrying 3 (wait_exponential 1 2 10) provider 1 [] []"



definition cancelled :: "nat \<Rightarrow> raised + string" where
  "cancelled attempt = Inl (BaseExc ''CancelledError'')"



section \<open>Runs of the WebSocket endpoint\<close>

lemmas wire_defs = scripted_def send_message_event_def stop_generation_event_def prepend_def
  stream_chunk_event_def

lemmas read_defs = persisted_message_def apply_event_def has_type_def event_type_def
  event_data_def server_event_def json_text_def terminal_events_def chunk_indices_def

lemma hello_run:
  "websocket_endpoint (scripted hi_there) [send_message_event (user_text ''Hello'')] =
     ([server_event ''message_created'' (user_text ''Hello''),
       server_event ''stream_start'' (JDict [(''message_id'', JStr ''a1'')]),
       server_event ''stream_chunk'' (JDict [(''chunk'', JStr ''Hi'')]),
       server_event ''stream_chunk'' (JDict [(''chunk'', JStr '' there'')]),
       server_event ''stream_end'' (JDict [(''usage'', usage_5_2_7)])], Disconnected)"
  by (simp add: wire_defs hi_there_def)

text \<open>
  C7. The user sends "Hello" and the stream yields "Hi", " there" and the usage
  5/2/7: the assistant message behind the events sent has the content "Hi there", is no
  longer generating, and its usage has the total 7.
\<close>

theorem hello_scenario:
  "persisted_message
     (fst (websocket_endpoint (scripted hi_there) [send_message_event (user_text ''Hello'')]))
     = Some \<lparr>message_id = Some (JStr ''a1''), role = ''assistant'', content = ''Hi there'',
             generating = False, usage = Some usage_5_2_7, status = [], error_text = None\<rparr>
   \<and> get_field usage_5_2_7 ''total_tokens'' = Some (JNum 7)"
proof -
  have "get_field usage_5_2_7 ''total_tokens'' = Some (JNum 7)"
    by (simp add: usage_5_2_7_def)
  moreover have "persisted_message
     (fst (websocket_endpoint (scripted hi_there) [send_message_event (user_text ''Hello'')]))
     = Some \<lparr>message_id = Some (JStr ''a1''), role = ''assistant'', content = ''Hi there'',
             generating = False, usage = Some usage_5_2_7, status = [], error_text = None\<rparr>"
    unfolding hello_run by (simp add: read_defs)
  ultimately show ?thesis by simp
qed

text \<open>
  C1. The claim wants the \<open>chunk_index\<close> values of the \<open>stream_chunk\<close> events of a message
  to be 0, 1, 2, ... On a stream of two chunks, the handler sends two \<open>stream_chunk\<close>
  events whose data holds the key \<open>chunk\<close> and nothing else: neither carries a
  \<open>chunk_index\<close> (nor a \<open>message_id\<close>).
\<close>

theorem story_chunks_carry_no_index:
  "websocket_endpoint (scripted story) [send_message_event (user_text ''Tell me a story'')] =
     ([server_event ''message_created'' (user_text ''Tell me a story''),
       server_event ''stream_start'' (JDict [(''message_id'', JStr ''a1'')]),
       server_event ''stream_chunk'' (JDict [(''chunk'', JStr ''Once upon a time'')]),
       server_event ''stream_chunk'' (JDict [(''chunk'', JStr '' there was'')]),
       server_event ''stream_end'' (JDict [(''usage'', JNull)])], Disconnected)
   \<and> chunk_indices
         (fst (websocket_endpoint (scripted story)
                [send_message_event (user_text ''Tell me a story'')]))
       = [None, None]"
proof -
  have run:
    "websocket_endpoint (scripted story) [send_message_event (user_text ''Tell me a story'')] =
     ([server_event ''message_created'' (user_text ''Tell me a story''),
       server_event ''stream_start'' (JDict [(''message_id'', JStr ''a1'')]),
       server_event ''stream_chunk'' (JDict [(''chunk'', JStr ''Once upon a time'')]),
       server_event ''stream_chunk'' (JDict [(''chunk'', JStr '' there was'')]),
       server_event ''stream_end'' (JDict [(''usage'', JNull)])], Disconnected)"
    by (simp add: wire_defs story_def)
  show ?thesis unfolding run by (simp add: read_defs)
qed

text \<open>
  The same holds on every run of the handler: no \<open>stream_chunk\<close> event it sends has a
  \<open>chunk_index\<close>.
\<close>

lemma chunk_indices_append: "chunk_indices (xs @ ys) = chunk_indices xs @ chunk_indices ys"
  by (simp add: chunk_indices_def)

lemma chunk_indices_of_chunks:
  "chunk_indices (map stream_chunk_event cs) = replicate (length cs) None"
  by (induction cs) (simp_all add: read_defs stream_chunk_event_def)

lemma no_chunk_index_ever:
  "list_all (\<lambda>i. i = None) (chunk_indices (fst (websocket_endpoint b inputs)))"
proof (induction inputs)
  case Nil
  show ?case by (simp add: chunk_indices_def)
next
  case (Cons d inputs)
  have other: "chunk_indices (server_event ''message_created'' x # server_event ''stream_start'' y
      # evs) = chunk_indices evs" for x y evs
    by (simp add: read_defs)
  have last: "chunk_indices (server_event ''stream_end'' x # evs) = chunk_indices evs" for x evs
    by (simp add: read_defs)
  have nil: "chunk_indices [] = []"
    by (simp add: chunk_indices_def)
  from Cons show ?case
    by (auto simp: prepend_def chunk_indices_append chunk_indices_of_chunks other last nil
        list_all_iff split: sum.splits stream_ending.splits)
qed

text \<open>
  C2. The claim wants every message's events to end with exactly one \<open>stream_end\<close> or
  \<open>stream_error\<close>. When the provider's stream raises before its first chunk, the handler
  has sent \<open>message_created\<close> and \<open>stream_start\<close>, the exception leaves the function, and
  no terminal event is ever sent for the message.
\<close>

theorem provider_error_no_terminal_event:
  "websocket_endpoint (scripted rate_limited) [send_message_event (user_text ''Hello'')] =
     ([server_event ''message_created'' (user_text ''Hello''),
       server_event ''stream_start'' (JDict [(''message_id'', JStr ''a1'')])],
      Crashed (ProviderError ''Rate limit exceeded''))
   \<and> terminal_events
         (fst (websocket_endpoint (scripted rate_limited)
                [send_message_event (user_text ''Hello'')]))
       = []"
proof -
  have run:
    "websocket_endpoint (scripted rate_limited) [send_message_event (user_text ''Hello'')] =
     ([server_event ''message_created'' (user_text ''Hello''),
       server_event ''stream_start'' (JDict [(''message_id'', JStr ''a1'')])],
      Crashed (ProviderError ''Rate limit exceeded''))"
    by (simp add: wire_defs rate_limited_def)
  show ?thesis unfolding run by (simp add: read_defs)
qed

text \<open>
  C4. The claim wants a stream that fails after three chunks to leave a message with the
  three chunks and an error-level status, and no crash. The handler sends the three
  chunks; then the exception leaves the function. Nothing follows the third chunk: no
  \<open>stream_error\<close>, no status, no terminal event of any kind.
\<close>

theorem partial_failure_run:
  "websocket_endpoint (scripted three_then_fail) [send_message_event (user_text ''Hello'')] =
     ([server_event ''message_created'' (user_text ''Hello''),
       server_event ''stream_start'' (JDict [(''message_id'', JStr ''a1'')]),
       server_event ''stream_chunk'' (JDict [(''chunk'', JStr ''A'')]),
       server_event ''stream_chunk'' (JDict [(''chunk'', JStr ''B'')]),
       server_event ''stream_chunk'' (JDict [(''chunk'', JStr ''C'')])],
      Crashed (ProviderError ''transient-network''))
   \<and> terminal_events
         (fst (websocket_endpoint (scripted three_then_fail)
                [send_message_event (user_text ''Hello'')]))
       = []"
proof -
  have run:
    "websocket_endpoint (scripted three_then_fail) [send_message_event (user_text ''Hello'')] =
     ([server_event ''message_created'' (user_text ''Hello''),
       server_event ''stream_start'' (JDict [(''message_id'', JStr ''a1'')]),
       server_event ''stream_chunk'' (JDict [(''chunk'', JStr ''A'')]),
       server_event ''stream_chunk'' (JDict [(''chunk'', JStr ''B'')]),
       server_event ''stream_chunk'' (JDict [(''chunk'', JStr ''C'')])],
      Crashed (ProviderError ''transient-network''))"
    by (simp add: wire_defs three_then_fail_def)
  show ?thesis unfolding run by (simp add: read_defs)
qed

text \<open>
  A request built the way the frontend's \<open>ChatWebSocket.sendMessage\<close> builds it has no
  key \<open>message\<close>: the handler raises \<open>KeyError\<close> right after \<open>stream_start\<close>, whatever the
  provider would do.
\<close>

lemma client_built_request:
  "websocket_endpoint (scripted hi_there) [client_send_message (user_text ''Hello'')] =
     ([server_event ''message_created'' JNull,
       server_event ''stream_start'' (JDict [(''message_id'', JStr ''a1'')])],
      Crashed (KeyError ''message''))"
  by (simp add: wire_defs client_send_message_def)

section \<open>One generation at a time\<close>

text \<open>
  Within one connection the requests are served one after the other: when every request
  of a list leads to a complete generation, the events sent are those of the first
  generation up to its \<open>stream_end\<close>, then those of the second, and so on, followed by what
  the rest of the input produces.
\<close>

lemma hello_completes: "completes (scripted hi_there) (send_message_event (user_text ''Hello''))"
  by (simp add: completes_def wire_defs hi_there_def)

lemma endpoint_sequential:
  "list_all (completes b) reqs \<Longrightarrow>
   websocket_endpoint b (reqs @ rest)
     = prepend (concat (map (generation_events b) reqs)) (websocket_endpoint b rest)"
proof (induction reqs)
  case Nil
  show ?case by (simp add: prepend_def)
next
  case (Cons d reqs)
  then show ?case
    by (auto simp: completes_def generation_events_def prepend_def
        split: sum.splits stream_ending.splits)
qed

lemma hello_twice_run:
  "websocket_endpoint (scripted hi_there)
     [send_message_event (user_text ''Hello''), send_message_event (user_text ''Hello'')] =
     ([server_event ''message_created'' (user_text ''Hello''),
       server_event ''stream_start'' (JDict [(''message_id'', JStr ''a1'')]),
       server_event ''stream_chunk'' (JDict [(''chunk'', JStr ''Hi'')]),
       server_event ''stream_chunk'' (JDict [(''chunk'', JStr '' there'')]),
       server_event ''stream_end'' (JDict [(''usage'', usage_5_2_7)]),
       server_event ''message_created'' (user_text ''Hello''),
       server_event ''stream_start'' (JDict [(''message_id'', JStr ''a1'')]),
       server_event ''stream_chunk'' (JDict [(''chunk'', JStr ''Hi'')]),
       server_event ''stream_chunk'' (JDict [(''chunk'', JStr '' there'')]),
       server_event ''stream_end'' (JDict [(''usage'', usage_5_2_7)])], Disconnected)"
  by (simp add: wire_defs hi_there_def)

section \<open>Stopping\<close>

lemma endpoint_stop:
  "websocket_endpoint b (pre @ stop_generation_event a # rest)
     = websocket_endpoint b (pre @ [stop_generation_event a])"
proof (induction pre)
  case Nil
  show ?case by (simp add: stop_generation_event_def)
next
  case (Cons d pre)
  then show ?case by (simp split: sum.splits stream_ending.splits)
qed

lemma endpoint_stop_events:
  "fst (websocket_endpoint b (pre @ [stop_generation_event a])) = fst (websocket_endpoint b pre)"
proof (induction pre)
  case Nil
  show ?case by (simp add: stop_generation_event_def)
next
  case (Cons d pre)
  then show ?case by (simp add: prepend_def split: sum.splits stream_ending.splits)
qed

lemma endpoint_stop_outcome:
  "snd (websocket_endpoint b (pre @ [stop_generation_event a])) =
     (if snd (websocket_endpoint b pre) = Disconnected then Stopped
      else snd (websocket_endpoint b pre))"
proof (induction pre)
  case Nil
  show ?case by (simp add: stop_generation_event_def)
next
  case (Cons d pre)
  then show ?case by (simp add: prepend_def split: sum.splits stream_ending.splits)
qed

lemma terminal_of_generation:
  "completes b req \<Longrightarrow> length (terminal_events (generation_events b req)) = 1"
  by (auto simp: completes_def generation_events_def read_defs stream_chunk_event_def
      split: sum.splits stream_ending.splits)

text \<open>
  The part of idempotence that the handler has: what follows a \<open>stop_generation\<close> on the
  connection, a second \<open>stop_generation\<close> included, is not read, and a \<open>stop_generation\<close>
  sends no event itself. A generation that ran to its end and is then stopped twice has
  its one \<open>stream_end\<close>.
\<close>

lemma stop_twice_is_stop_once:
  "websocket_endpoint b (pre @ stop_generation_event a # stop_generation_event a' # rest)
     = websocket_endpoint b (pre @ [stop_generation_event a])
   \<and> fst (websocket_endpoint b (pre @ [stop_generation_event a]))
       = fst (websocket_endpoint b pre)"
  using endpoint_stop [of b pre a "stop_generation_event a' # rest"]
    endpoint_stop_events [of b pre a]
  by simp

lemma stopped_twice_after_the_end:
  assumes "completes b req"
  shows "length (terminal_events (fst (websocket_endpoint b
           (req # stop_generation_event a # stop_generation_event a' # rest)))) = 1"
proof -
  have "websocket_endpoint b ([req] @ stop_generation_event a # stop_generation_event a' # rest)
      = websocket_endpoint b ([req] @ [stop_generation_event a])"
    by (rule endpoint_stop)
  then have "fst (websocket_endpoint b
        (req # stop_generation_event a # stop_generation_event a' # rest))
      = fst (websocket_endpoint b ([req] @ []))"
    using endpoint_stop_events [of b "[req]" a] by simp
  also have "\<dots> = generation_events b req"
    using endpoint_sequential [of b "[req]" "[]"] assms by (simp add: prepend_def)
  finally show ?thesis using terminal_of_generation [OF assms] by simp
qed

lemma hello_stop_hello_run:
  "websocket_endpoint (scripted hi_there)
     [send_message_event (user_text ''Hello''), stop_generation_event ''a1'',
      send_message_event (user_text ''Hello'')] =
     ([server_event ''message_created'' (user_text ''Hello''),
       server_event ''stream_start'' (JDict [(''message_id'', JStr ''a1'')]),
       server_event ''stream_chunk'' (JDict [(''chunk'', JStr ''Hi'')]),
       server_event ''stream_chunk'' (JDict [(''chunk'', JStr '' there'')]),
       server_event ''stream_end'' (JDict [(''usage'', usage_5_2_7)])], Stopped)"
  by (simp add: wire_defs hi_there_def)

text \<open>
  C6. The claim wants a \<open>stop_generation\<close> for a job that is already in a terminal state
  to be a no-op. The branch of the handler is a \<open>break\<close> under the comment "Cancel AI
  request": it cancels nothing, since it is read only after the generation has sent its
  \<open>stream_end\<close>, and it leaves the receive loop. On the inputs request, stop, request, the
  stop names the generation \<open>a1\<close> that has just ended; after it the handler returns, and
  the second request gets no event at all. The run has one terminal event, where the same
  two requests without the stop have two.
\<close>

theorem stop_ends_the_handler:
  "websocket_endpoint (scripted hi_there)
     [send_message_event (user_text ''Hello''), stop_generation_event ''a1'',
      send_message_event (user_text ''Hello'')] =
     ([server_event ''message_created'' (user_text ''Hello''),
       server_event ''stream_start'' (JDict [(''message_id'', JStr ''a1'')]),
       server_event ''stream_chunk'' (JDict [(''chunk'', JStr ''Hi'')]),
       server_event ''stream_chunk'' (JDict [(''chunk'', JStr '' there'')]),
       server_event ''stream_end'' (JDict [(''usage'', usage_5_2_7)])], Stopped)
   \<and> length (terminal_events (fst (websocket_endpoint (scripted hi_there)
      [send_message_event (user_text ''Hello''), stop_generation_event ''a1'',
       send_message_event (user_text ''Hello'')]))) = 1
   \<and> length (terminal_events (fst (websocket_endpoint (scripted hi_there)
      [send_message_event (user_text ''Hello''), send_message_event (user_text ''Hello'')]))) = 2"
  unfolding hello_stop_hello_run hello_twice_run by (simp add: read_defs)

section \<open>Delivery by the connection manager\<close>

lemma listen_redis_fields [simp]:
  "active_connections (listen_redis s t m) = active_connections m"
  "listeners (listen_redis s t m) = listeners m"
  by (simp_all add: listen_redis_def split: option.splits)

lemma fold_listen_fields [simp]:
  "active_connections (fold (\<lambda>l. listen_redis l t) ls m) = active_connections m"
  "listeners (fold (\<lambda>l. listen_redis l t) ls m) = listeners m"
  by (induction ls arbitrary: m) simp_all

lemma broadcast_fields [simp]:
  "active_connections (broadcast s t m) = active_connections m"
  "listeners (broadcast s t m) = listeners m"
  by (simp_all add: broadcast_def)

lemma fold_listen_other:
  "\<forall>l \<in> set ls. active_connections m l \<noteq> Some ws \<Longrightarrow>
   delivered (fold (\<lambda>l. listen_redis l t) ls m) ws = delivered m ws"
  by (induction ls arbitrary: m) (auto simp: listen_redis_def split: option.splits)

lemma broadcast_other:
  "active_connections m s \<noteq> Some ws \<Longrightarrow> delivered (broadcast s t m) ws = delivered m ws"
  by (simp add: broadcast_def fold_listen_other)

lemma broadcast_sole:
  "active_connections m s = Some ws \<Longrightarrow> filter (\<lambda>l. l = s) (listeners m) = [s] \<Longrightarrow>
   delivered (broadcast s t m) ws = delivered m ws @ [t]"
  by (simp add: broadcast_def listen_redis_def)

lemma apply_op_sole:
  assumes "sole sid ws m" and "elsewhere sid ws op"
  shows "sole sid ws (apply_op op m) \<and>
         delivered (apply_op op m) ws = delivered m ws @ broadcasts_to sid [op]"
proof (cases op)
  case (Connect s w)
  with assms show ?thesis by (auto simp: sole_def connect_def)
next
  case (Broadcast s t)
  show ?thesis
  proof (cases "s = sid")
    case True
    with assms Broadcast show ?thesis by (simp add: sole_def broadcast_sole)
  next
    case False
    with assms have "active_connections m s \<noteq> Some ws" by (auto simp: sole_def)
    with assms Broadcast False show ?thesis by (simp add: sole_def broadcast_other)
  qed
qed

lemma broadcasts_to_append:
  "broadcasts_to sid (xs @ ys) = broadcasts_to sid xs @ broadcasts_to sid ys"
  by (induction sid xs rule: broadcasts_to.induct) simp_all

lemma run_sole:
  "sole sid ws m \<Longrightarrow> list_all (elsewhere sid ws) ops \<Longrightarrow>
   delivered (run_manager ops m) ws = delivered m ws @ broadcasts_to sid ops"
proof (induction ops arbitrary: m)
  case Nil
  show ?case by (simp add: run_manager_def)
next
  case (Cons op ops)
  from Cons.prems have s: "sole sid ws m" and e: "elsewhere sid ws op"
    and r: "list_all (elsewhere sid ws) ops"
    by simp_all
  from apply_op_sole [OF s e] have s': "sole sid ws (apply_op op m)"
    and d: "delivered (apply_op op m) ws = delivered m ws @ broadcasts_to sid [op]"
    by simp_all
  have "delivered (run_manager (op # ops) m) ws = delivered (run_manager ops (apply_op op m)) ws"
    by (simp add: run_manager_def)
  also have "\<dots> = delivered (apply_op op m) ws @ broadcasts_to sid ops"
    using Cons.IH [OF s' r] .
  also have "\<dots> = delivered m ws @ broadcasts_to sid (op # ops)"
    using d broadcasts_to_append [of sid "[op]" ops] by simp
  finally show ?case .
qed

lemma filter_none: "s \<notin> set ls \<Longrightarrow> filter (\<lambda>l. l = s) ls = []"
  by (induction ls) auto

lemma apply_op_untouched:
  assumes "untouched sid ws m" and "elsewhere sid ws op"
  shows "untouched sid ws (apply_op op m)"
proof (cases op)
  case (Connect s w)
  with assms show ?thesis by (auto simp: untouched_def connect_def)
next
  case (Broadcast s t)
  from assms have "active_connections m s \<noteq> Some ws" by (simp add: untouched_def)
  with assms Broadcast show ?thesis by (simp add: untouched_def broadcast_other)
qed

lemma run_untouched:
  "untouched sid ws m \<Longrightarrow> list_all (elsewhere sid ws) ops \<Longrightarrow>
   untouched sid ws (run_manager ops m)"
proof (induction ops arbitrary: m)
  case Nil
  then show ?case by (simp add: run_manager_def)
next
  case (Cons op ops)
  then show ?case using apply_op_untouched [of sid ws m op] by (simp add: run_manager_def)
qed

lemma connect_untouched:
  "untouched sid ws m \<Longrightarrow>
   sole sid ws (connect sid ws m) \<and> delivered (connect sid ws m) ws = []"
  by (auto simp: untouched_def sole_def connect_def filter_none)

text \<open>
  C5, as stated, fails: with two connections open on one session, an event broadcast to
  the session does not reach both. The second \<open>connect\<close> replaces the first websocket in
  \<open>active_connections\<close>, and both listener tasks send to the websocket found there: the
  first connection receives nothing, the second receives the text twice.
\<close>

theorem second_tab_takes_over:
  "delivered (run_manager [Connect ''s'' 1, Connect ''s'' 2, Broadcast ''s'' ''chunk'']
      new_manager) 1 = []
   \<and> delivered (run_manager [Connect ''s'' 1, Connect ''s'' 2, Broadcast ''s'' ''chunk'']
      new_manager) 2 = [''chunk'', ''chunk'']"
  by (simp add: run_manager_def new_manager_def connect_def broadcast_def listen_redis_def)

text \<open>
  C5, amended. A session with one connection gets every text broadcast to it after the
  connection was made, once each and in the order of the broadcasts, whatever other
  sessions connect and broadcast before and after.
\<close>

theorem single_connection_delivery:
  assumes "list_all (elsewhere sid ws) before" and "list_all (elsewhere sid ws) after"
  shows "delivered (run_manager (before @ Connect sid ws # after) new_manager) ws
           = broadcasts_to sid after"
proof -
  have "untouched sid ws new_manager" by (simp add: untouched_def new_manager_def)
  then have u: "untouched sid ws (run_manager before new_manager)"
    using assms(1) by (rule run_untouched)
  let ?m = "connect sid ws (run_manager before new_manager)"
  from connect_untouched [OF u] have s: "sole sid ws ?m" and d: "delivered ?m ws = []"
    by simp_all
  have "run_manager (before @ Connect sid ws # after) new_manager = run_manager after ?m"
    by (simp add: run_manager_def)
  then show ?thesis using run_sole [OF s assms(2)] d by simp
qed

theorem single_connection_delivery_witness:
  "list_all (elsewhere ''s'' 1) [Connect ''t'' 2, Broadcast ''s'' ''early'']
   \<and> list_all (elsewhere ''s'' 1)
       [Broadcast ''s'' ''Hi'', Broadcast ''t'' ''other'', Connect ''u'' 3,
        Broadcast ''s'' '' there'']
   \<and> delivered (run_manager ([Connect ''t'' 2, Broadcast ''s'' ''early''] @ Connect ''s'' 1 #
       [Broadcast ''s'' ''Hi'', Broadcast ''t'' ''other'', Connect ''u'' 3,
        Broadcast ''s'' '' there'']) new_manager) 1 = [''Hi'', '' there'']"
proof -
  have h1: "list_all (elsewhere ''s'' 1) [Connect ''t'' 2, Broadcast ''s'' ''early'']"
    by simp
  have h2: "list_all (elsewhere ''s'' 1)
       [Broadcast ''s'' ''Hi'', Broadcast ''t'' ''other'', Connect ''u'' 3,
        Broadcast ''s'' '' there'']"
    by simp
  from single_connection_delivery [OF h1 h2] h1 h2 show ?thesis by simp
qed

section \<open>The retry policy\<close>


lemma retrying_passes_on:
  "provider a = Inl (BaseExc e) \<Longrightarrow>
   retrying s w provider a sl out =
     \<lparr>final = Inl (Propagated e), provider_calls = a, waits = sl, printed = out\<rparr>"
  by (subst retrying.simps) simp













text \<open>
  An exception outside \<open>Exception\<close> is not retried: a cancelled call is made once, without
  a wait or a printed line, and the cancellation is passed on.
\<close>

lemma cancellation_is_passed_on:
  "call_ai_provider_with_retry cancelled =
     \<lparr>final = Inl (Propagated ''CancelledError''), provider_calls = 1, waits = [],
      printed = []\<rparr>"
  by (simp add: call_ai_provider_with_retry_def cancelled_def retrying_passes_on)



section \<open>Messages the handler does not validate\<close>

text \<open>
  C9. The claim wants a message without a content part, or with a role outside
  \<open>user\<close>, \<open>assistant\<close> and \<open>system\<close>, rejected with a validation error before any generation
  is started. The handler passes \<open>data['message']\<close> to the provider's stream without
  looking at it: for a message with the role \<open>root\<close> and an empty list of content parts
  it sends \<open>message_created\<close> and \<open>stream_start\<close>, streams both chunks and ends the
  generation with \<open>stream_end\<close>. Nothing is rejected.
\<close>

theorem unvalidated_message_is_streamed:
  "websocket_endpoint (scripted story) [send_message_event rootless] =
     ([server_event ''message_created''
         (JDict [(''role'', JStr ''root''), (''content_parts'', JList [])]),
       server_event ''stream_start'' (JDict [(''message_id'', JStr ''a1'')]),
       server_event ''stream_chunk'' (JDict [(''chunk'', JStr ''Once upon a time'')]),
       server_event ''stream_chunk'' (JDict [(''chunk'', JStr '' there was'')]),
       server_event ''stream_end'' (JDict [(''usage'', JNull)])], Disconnected)"
  by (simp add: wire_defs story_def rootless_def)

section \<open>Properties of the authentication store\<close>

text \<open>
  C10. After \<open>logout()\<close> resolves, the stored user, access token and refresh token are
  null and \<open>isAuthenticated\<close> is false, whether the server-side logout request
  succeeded or threw; and \<open>logout()\<close> does resolve on both paths.
\<close>

theorem logout_clears_credentials:
  "\<exists>st' ls' console.
      logout post st ls = Resolved (st', ls', console)
    \<and> user st' = None \<and> accessToken st' = None \<and> refreshToken st' = None
    \<and> isAuthenticated st' = False"
  by (cases post) (simp_all add: logout_def api_logout_def)

end
